theory Spec2Isabelle
  imports Main
begin

section \<open>The qlog logging facade\<close>

text \<open>
  A shallow embedding of package \<open>qlog\<close> (\<open>logger.go\<close> and the level constants).
  The package is a thin facade over three kinds of collaborators that live outside the
  repository: the process (\<open>os.LookupEnv\<close>, the builtin \<open>println\<close>), the zap engine
  behind the \<open>*zap.Logger\<close> handle, and the web-framework request contexts.  Every call
  the facade makes into one of them is recorded, in program order, as an \<open>event\<close>; an
  operation of the facade is a function from its inputs to the list of events it
  performs (and to its result, when it has one).  Questions such as "was the engine
  called", "was the context read" and "what was written to the raw channel" are then
  questions about that list.

  The contexts and the engine handle stand for live objects: what a framework method
  does on a nil receiver is the framework's business and is not part of this model.
\<close>

subsection \<open>Values, fields and levels\<close>

text \<open>Go values of type \<open>interface{}\<close>, as far as the facade looks into them.\<close>

datatype any =
    AnyNil
  | AnyString string
  | AnyInt int
  | AnyBool bool
  | AnyMap "(string \<times> any) list"

text \<open>The level constants of the package (each carries a string value).\<close>

datatype LevelError =
    DebugLevel
  | InfoLevel
  | WarnLevel
  | ErrorLevel
  | DPanicLevel
  | PanicLevel
  | FatalLevel

fun LevelError_string :: "LevelError \<Rightarrow> string" where
  "LevelError_string DebugLevel = ''debug''"
| "LevelError_string InfoLevel = ''info''"
| "LevelError_string WarnLevel = ''warn''"
| "LevelError_string ErrorLevel = ''error''"
| "LevelError_string DPanicLevel = ''dpanic''"
| "LevelError_string PanicLevel = ''panic''"
| "LevelError_string FatalLevel = ''fatal''"

text \<open>Keys used for the structured fields.\<close>

definition KeyXRequestID :: string where
  "KeyXRequestID = ''x-request-id''"

definition KeyService :: string where
  "KeyService = ''service''"

text \<open>
  A \<open>zap.Field\<close>, by the constructor that built it: \<open>zap.String(key, val)\<close> and
  \<open>zap.Any(key, val)\<close>.
\<close>

datatype Field =
    zap_String (field_Key: string) string
  | zap_Any (field_Key: string) any

subsection \<open>Contexts, the logger and its collaborators\<close>

text \<open>
  The request contexts, by the one method the facade calls on each:
  \<open>(*gin.Context).GetString\<close> and \<open>(*fasthttp.RequestCtx).UserValue\<close>.  Nothing is read
  from a \<open>*http.Request\<close>.
\<close>

record gin_Context =
  GetString :: "string \<Rightarrow> string"

record http_Request =
  Method :: string
  RequestURI :: string

record fasthttp_RequestCtx =
  UserValue :: "string \<Rightarrow> any"

text \<open>
  The field \<open>Context interface{}\<close>: the nil interface, one of the three dynamic types the
  facade asserts, or a value of any other dynamic type.
\<close>

datatype LoggingContext =
    NilContext
  | GinContext gin_Context
  | HttpRequest http_Request
  | FasthttpRequestCtx fasthttp_RequestCtx
  | OtherContext any

text \<open>The engine handle \<open>*zap.Logger\<close> names the engine instance that is called.\<close>

type_synonym zap_Logger = nat

record Logger =
  Context :: LoggingContext
  Zap :: zap_Logger

record LoggerExtras =
  Key :: string
  Value :: "(string \<times> any) list"
  Filter :: "string list"

text \<open>The process environment: a variable is unset, or set to a (possibly empty) string.\<close>

type_synonym environ = "string \<rightharpoonup> string"

text \<open>
  The two standard-library functions whose result depends on caller-supplied text,
  \<open>fmt.Sprintf\<close> on the caller's format and arguments and \<open>json.Valid\<close> on the
  caller's fragment, are parameters of the model.
\<close>

record golang =
  fmt_Sprintf :: "string \<Rightarrow> any list \<Rightarrow> string"
  json_Valid :: "string \<Rightarrow> bool"

text \<open>
  Modelled from the spec: \<open>stg.IsEmpty\<close> comes from the module correct-util-sdk-go, which
  is not among the sources; the specification reads \<open>!stg.IsEmpty(&s)\<close> as "\<open>s\<close> is
  non-empty".  Every call passes the address of a local string, never nil.
\<close>

definition stg_IsEmpty :: "string \<Rightarrow> bool" where
  "stg_IsEmpty s \<longleftrightarrow> s = []"

subsection \<open>Events\<close>

datatype event =
    EnvRead string
  | GinGetString string
  | FasthttpUserValue string
  | Println string
  | ZapWrite zap_Logger LevelError string "Field list"

definition os_LookupEnv :: "environ \<Rightarrow> string \<Rightarrow> string option \<times> event list" where
  "os_LookupEnv env key = (env key, [EnvRead key])"

definition gin_GetString :: "gin_Context \<Rightarrow> string \<Rightarrow> string \<times> event list" where
  "gin_GetString c key = (GetString c key, [GinGetString key])"

definition fasthttp_UserValue :: "fasthttp_RequestCtx \<Rightarrow> string \<Rightarrow> any \<times> event list" where
  "fasthttp_UserValue c key = (UserValue c key, [FasthttpUserValue key])"

subsection \<open>Field extraction\<close>

text \<open>
  \<open>logFromContext\<close>: three type assertions in sequence on the same context, each
  appending to \<open>fields\<close>; the third block ends in a bare \<open>return\<close> of the named result.
\<close>

definition logFromContext :: "environ \<Rightarrow> LoggingContext \<Rightarrow> Field list \<times> event list" where
  "logFromContext env ctx =
    (let fields = []; tr = [];
         (fields, tr) =
           (case ctx of
              GinContext c \<Rightarrow>
                (let (uuid, e1) = gin_GetString c ''request_id'';
                     fields = (if \<not> stg_IsEmpty uuid
                               then fields @ [zap_String KeyXRequestID uuid] else fields);
                     (service, e2) = os_LookupEnv env ''SERVICE_NAME'';
                     fields = (case service of
                                 Some s \<Rightarrow> fields @ [zap_String KeyService s]
                               | None \<Rightarrow> fields)
                 in (fields, tr @ e1 @ e2))
            | _ \<Rightarrow> (fields, tr));
         (fields, tr) =
           (case ctx of
              HttpRequest _ \<Rightarrow>
                (let (service, e) = os_LookupEnv env ''SERVICE_NAME'';
                     fields = (case service of
                                 Some s \<Rightarrow> fields @ [zap_String KeyService s]
                               | None \<Rightarrow> fields)
                 in (fields, tr @ e))
            | _ \<Rightarrow> (fields, tr))
     in (case ctx of
           FasthttpRequestCtx c \<Rightarrow>
             (let (v, e1) = fasthttp_UserValue c ''request_id'';
                  fields = (case v of
                              AnyString uuid \<Rightarrow> fields @ [zap_String KeyXRequestID uuid]
                            | _ \<Rightarrow> fields);
                  (service, e2) = os_LookupEnv env ''SERVICE_NAME'';
                  fields = (case service of
                              Some s \<Rightarrow> fields @ [zap_String KeyService s]
                            | None \<Rightarrow> fields)
              in (fields, tr @ e1 @ e2))
         | _ \<Rightarrow> (fields, tr)))"

subsection \<open>Emission\<close>

definition Fatal :: "golang \<Rightarrow> environ \<Rightarrow> Logger \<Rightarrow> string \<Rightarrow> any list \<Rightarrow> event list" where
  "Fatal rt env l msg keysAndValues =
    (let (dbg, e0) = os_LookupEnv env ''GO_DEBUG'' in
     case dbg of
       Some _ \<Rightarrow> e0 @ [Println (fmt_Sprintf rt msg keysAndValues)]
     | None \<Rightarrow>
         (let (nrfs, e1) = logFromContext env (Context l);
              msg = (if length keysAndValues > 0 then fmt_Sprintf rt msg keysAndValues else msg)
          in e0 @ e1 @ [ZapWrite (Zap l) FatalLevel msg nrfs]))"

definition Error :: "golang \<Rightarrow> environ \<Rightarrow> Logger \<Rightarrow> string \<Rightarrow> any list \<Rightarrow> event list" where
  "Error rt env l msg keysAndValues =
    (let (dbg, e0) = os_LookupEnv env ''GO_DEBUG'' in
     case dbg of
       Some _ \<Rightarrow> e0 @ [Println (fmt_Sprintf rt msg keysAndValues)]
     | None \<Rightarrow>
         (let (nrfs, e1) = logFromContext env (Context l);
              msg = (if length keysAndValues > 0 then fmt_Sprintf rt msg keysAndValues else msg)
          in e0 @ e1 @ [ZapWrite (Zap l) ErrorLevel msg nrfs]))"

definition Warn :: "golang \<Rightarrow> environ \<Rightarrow> Logger \<Rightarrow> string \<Rightarrow> any list \<Rightarrow> event list" where
  "Warn rt env l msg keysAndValues =
    (let (dbg, e0) = os_LookupEnv env ''GO_DEBUG'' in
     case dbg of
       Some _ \<Rightarrow> e0 @ [Println (fmt_Sprintf rt msg keysAndValues)]
     | None \<Rightarrow>
         (let (nrfs, e1) = logFromContext env (Context l);
              msg = (if length keysAndValues > 0 then fmt_Sprintf rt msg keysAndValues else msg)
          in e0 @ e1 @ [ZapWrite (Zap l) WarnLevel msg nrfs]))"

definition Info :: "golang \<Rightarrow> environ \<Rightarrow> Logger \<Rightarrow> string \<Rightarrow> any list \<Rightarrow> event list" where
  "Info rt env l msg keysAndValues =
    (let (dbg, e0) = os_LookupEnv env ''GO_DEBUG'' in
     case dbg of
       Some _ \<Rightarrow> e0 @ [Println (fmt_Sprintf rt msg keysAndValues)]
     | None \<Rightarrow>
         (let (nrfs, e1) = logFromContext env (Context l);
              msg = (if length keysAndValues > 0 then fmt_Sprintf rt msg keysAndValues else msg)
          in e0 @ e1 @ [ZapWrite (Zap l) InfoLevel msg nrfs]))"

definition Debug :: "golang \<Rightarrow> environ \<Rightarrow> Logger \<Rightarrow> string \<Rightarrow> any list \<Rightarrow> event list" where
  "Debug rt env l msg keysAndValues =
    (let (dbg, e0) = os_LookupEnv env ''GO_DEBUG'' in
     case dbg of
       Some _ \<Rightarrow> e0 @ [Println (fmt_Sprintf rt msg keysAndValues)]
     | None \<Rightarrow>
         (let (nrfs, e1) = logFromContext env (Context l);
              msg = (if length keysAndValues > 0 then fmt_Sprintf rt msg keysAndValues else msg)
          in e0 @ e1 @ [ZapWrite (Zap l) DebugLevel msg nrfs]))"

text \<open>
  \<open>InfoJSON\<close> extracts the fields first and tests \<open>GO_DEBUG\<close> second; a Go map is an
  association list here, and \<open>len(keys.Value) > 0\<close> asks whether it has an entry.
  Its one formatting call has the constant format \<open>"%s %s"\<close> and two string operands:
  \<open>%s\<close> writes a string operand as it is, so the result is the first string, a space
  and the second string.
\<close>

definition InfoJSON :: "golang \<Rightarrow> environ \<Rightarrow> Logger \<Rightarrow> string \<Rightarrow> string \<Rightarrow> LoggerExtras \<Rightarrow> event list" where
  "InfoJSON rt env l msg jbs keys =
    (let (nrfs, e1) = logFromContext env (Context l);
         (dbg, e2) = os_LookupEnv env ''GO_DEBUG''
     in case dbg of
          Some _ \<Rightarrow> e1 @ e2 @ [Println msg]
        | None \<Rightarrow>
            if \<not> json_Valid rt jbs then e1 @ e2 @ [ZapWrite (Zap l) InfoLevel msg nrfs]
            else
              (let nrfs = (if \<not> stg_IsEmpty (Key keys) \<and> length (Value keys) > 0
                           then nrfs @ [zap_Any (Key keys) (AnyMap (Value keys))] else nrfs)
               in e1 @ e2 @ [ZapWrite (Zap l) InfoLevel (msg @ '' '' @ jbs) nrfs]))"

subsection \<open>The field pipeline in the specification's words\<close>




section \<open>What each path does\<close>

subsection \<open>Field extraction, shape by shape\<close>

lemma logFromContext_GinContext:
  "logFromContext env (GinContext c) =
     ((if stg_IsEmpty (GetString c ''request_id'') then []
       else [zap_String ''x-request-id'' (GetString c ''request_id'')]) @
      (case env ''SERVICE_NAME'' of Some s \<Rightarrow> [zap_String ''service'' s] | None \<Rightarrow> []),
      [GinGetString ''request_id'', EnvRead ''SERVICE_NAME''])"
  by (simp add: logFromContext_def gin_GetString_def os_LookupEnv_def KeyXRequestID_def
           KeyService_def split: option.split)


lemma logFromContext_FasthttpRequestCtx:
  "logFromContext env (FasthttpRequestCtx c) =
     ((case UserValue c ''request_id'' of
         AnyString uuid \<Rightarrow> [zap_String ''x-request-id'' uuid]
       | _ \<Rightarrow> []) @
      (case env ''SERVICE_NAME'' of Some s \<Rightarrow> [zap_String ''service'' s] | None \<Rightarrow> []),
      [FasthttpUserValue ''request_id'', EnvRead ''SERVICE_NAME''])"
  by (simp add: logFromContext_def fasthttp_UserValue_def os_LookupEnv_def KeyXRequestID_def
           KeyService_def split: option.split any.split)

lemma logFromContext_NilContext: "logFromContext env NilContext = ([], [])"
  by (simp add: logFromContext_def)


subsection \<open>The severity operations and \<open>InfoJSON\<close>, by the state of \<open>GO_DEBUG\<close>\<close>

lemma Fatal_bypass:
  "env ''GO_DEBUG'' = Some d \<Longrightarrow>
   Fatal rt env l msg args = [EnvRead ''GO_DEBUG'', Println (fmt_Sprintf rt msg args)]"
  by (simp add: Fatal_def os_LookupEnv_def)

lemma Error_bypass:
  "env ''GO_DEBUG'' = Some d \<Longrightarrow>
   Error rt env l msg args = [EnvRead ''GO_DEBUG'', Println (fmt_Sprintf rt msg args)]"
  by (simp add: Error_def os_LookupEnv_def)

lemma Warn_bypass:
  "env ''GO_DEBUG'' = Some d \<Longrightarrow>
   Warn rt env l msg args = [EnvRead ''GO_DEBUG'', Println (fmt_Sprintf rt msg args)]"
  by (simp add: Warn_def os_LookupEnv_def)

lemma Info_bypass:
  "env ''GO_DEBUG'' = Some d \<Longrightarrow>
   Info rt env l msg args = [EnvRead ''GO_DEBUG'', Println (fmt_Sprintf rt msg args)]"
  by (simp add: Info_def os_LookupEnv_def)

lemma Debug_bypass:
  "env ''GO_DEBUG'' = Some d \<Longrightarrow>
   Debug rt env l msg args = [EnvRead ''GO_DEBUG'', Println (fmt_Sprintf rt msg args)]"
  by (simp add: Debug_def os_LookupEnv_def)

lemma Fatal_emit:
  "env ''GO_DEBUG'' = None \<Longrightarrow>
   Fatal rt env l msg args =
     EnvRead ''GO_DEBUG'' # snd (logFromContext env (Context l)) @
     [ZapWrite (Zap l) FatalLevel (if args = [] then msg else fmt_Sprintf rt msg args)
        (fst (logFromContext env (Context l)))]"
  by (simp add: Fatal_def os_LookupEnv_def split: prod.split)

lemma Error_emit:
  "env ''GO_DEBUG'' = None \<Longrightarrow>
   Error rt env l msg args =
     EnvRead ''GO_DEBUG'' # snd (logFromContext env (Context l)) @
     [ZapWrite (Zap l) ErrorLevel (if args = [] then msg else fmt_Sprintf rt msg args)
        (fst (logFromContext env (Context l)))]"
  by (simp add: Error_def os_LookupEnv_def split: prod.split)

lemma Warn_emit:
  "env ''GO_DEBUG'' = None \<Longrightarrow>
   Warn rt env l msg args =
     EnvRead ''GO_DEBUG'' # snd (logFromContext env (Context l)) @
     [ZapWrite (Zap l) WarnLevel (if args = [] then msg else fmt_Sprintf rt msg args)
        (fst (logFromContext env (Context l)))]"
  by (simp add: Warn_def os_LookupEnv_def split: prod.split)

lemma Info_emit:
  "env ''GO_DEBUG'' = None \<Longrightarrow>
   Info rt env l msg args =
     EnvRead ''GO_DEBUG'' # snd (logFromContext env (Context l)) @
     [ZapWrite (Zap l) InfoLevel (if args = [] then msg else fmt_Sprintf rt msg args)
        (fst (logFromContext env (Context l)))]"
  by (simp add: Info_def os_LookupEnv_def split: prod.split)

lemma Debug_emit:
  "env ''GO_DEBUG'' = None \<Longrightarrow>
   Debug rt env l msg args =
     EnvRead ''GO_DEBUG'' # snd (logFromContext env (Context l)) @
     [ZapWrite (Zap l) DebugLevel (if args = [] then msg else fmt_Sprintf rt msg args)
        (fst (logFromContext env (Context l)))]"
  by (simp add: Debug_def os_LookupEnv_def split: prod.split)

lemma InfoJSON_bypass:
  "env ''GO_DEBUG'' = Some d \<Longrightarrow>
   InfoJSON rt env l msg jbs keys =
     snd (logFromContext env (Context l)) @ [EnvRead ''GO_DEBUG'', Println msg]"
  by (simp add: InfoJSON_def os_LookupEnv_def split: prod.split)

lemma InfoJSON_emit:
  "env ''GO_DEBUG'' = None \<Longrightarrow>
   InfoJSON rt env l msg jbs keys =
     snd (logFromContext env (Context l)) @
     [EnvRead ''GO_DEBUG'',
      (if \<not> json_Valid rt jbs
       then ZapWrite (Zap l) InfoLevel msg (fst (logFromContext env (Context l)))
       else ZapWrite (Zap l) InfoLevel (msg @ '' '' @ jbs)
              (fst (logFromContext env (Context l)) @
               (if \<not> stg_IsEmpty (Key keys) \<and> Value keys \<noteq> []
                then [zap_Any (Key keys) (AnyMap (Value keys))] else [])))]"
  by (simp add: InfoJSON_def os_LookupEnv_def split: prod.split)

subsection \<open>Extraction against the specification's two components\<close>



section \<open>The claims\<close>

text \<open>
  C1. With \<open>GO_DEBUG\<close> set, each of the five severity operations tests the variable
  first and then only prints the formatted message (lemmas \<open>Fatal_bypass\<close> to
  \<open>Debug_bypass\<close>).  \<open>InfoJSON\<close> calls \<open>logFromContext\<close> before it tests the
  variable (lemma \<open>InfoJSON_bypass\<close>): on a gin context it reads the context's
  \<open>request_id\<close> and looks \<open>SERVICE_NAME\<close> up, drops the fields, and prints the message.
  \<open>Info\<close> on the same logger and environment makes neither call.  Neither reaches
  the engine.
\<close>

theorem InfoJSON_bypass_reads_context:
  \<open>InfoJSON \<lparr>fmt_Sprintf = (\<lambda>f a. f), json_Valid = (\<lambda>s. True)\<rparr>
     [''GO_DEBUG'' \<mapsto> ''1'', ''SERVICE_NAME'' \<mapsto> ''svc'']
     \<lparr>Context = GinContext \<lparr>GetString = (\<lambda>k. ''r-1'')\<rparr>, Zap = 7\<rparr>
     ''order'' ''{"id":1}'' \<lparr>Key = ''meta'', Value = [(''a'', AnyInt 1)], Filter = []\<rparr> =
     [GinGetString ''request_id'', EnvRead ''SERVICE_NAME'', EnvRead ''GO_DEBUG'',
      Println ''order''] \<and>
   Info \<lparr>fmt_Sprintf = (\<lambda>f a. f), json_Valid = (\<lambda>s. True)\<rparr>
     [''GO_DEBUG'' \<mapsto> ''1'', ''SERVICE_NAME'' \<mapsto> ''svc'']
     \<lparr>Context = GinContext \<lparr>GetString = (\<lambda>k. ''r-1'')\<rparr>, Zap = 7\<rparr>
     ''order'' [] =
     [EnvRead ''GO_DEBUG'', Println ''order'']\<close>
  by (simp add: InfoJSON_bypass [where d = "''1''"] Info_bypass [where d = "''1''"]
        logFromContext_GinContext)




text \<open>
  C3. \<open>InfoJSON\<close> on the normal path (\<open>GO_DEBUG\<close> unset), with a fragment that
  \<open>json.Valid\<close> accepts, a non-empty \<open>Key\<close> and a non-empty \<open>Value\<close>: one record at Info
  level, whose fields are those of \<open>logFromContext\<close> followed by the field
  \<open>Key = Value\<close>, and whose message is the message, a space and the fragment.
  \<open>Filter\<close> is never read: replacing it changes nothing.
\<close>

theorem InfoJSON_valid_appends_extras:
  assumes "env ''GO_DEBUG'' = None"
    and "json_Valid rt jbs"
    and "Key keys \<noteq> []"
    and "Value keys \<noteq> []"
  shows
    "InfoJSON rt env l msg jbs keys =
       snd (logFromContext env (Context l)) @
       [EnvRead ''GO_DEBUG'',
        ZapWrite (Zap l) InfoLevel (msg @ '' '' @ jbs)
          (fst (logFromContext env (Context l)) @ [zap_Any (Key keys) (AnyMap (Value keys))])] \<and>
     InfoJSON rt env l msg jbs (keys\<lparr>Filter := flt\<rparr>) = InfoJSON rt env l msg jbs keys"
  using assms by (simp add: InfoJSON_emit stg_IsEmpty_def)

theorem InfoJSON_valid_appends_extras_witness:
  \<open>[''SERVICE_NAME'' \<mapsto> ''svc''] ''GO_DEBUG'' = None \<and>
   InfoJSON
     \<lparr>fmt_Sprintf = (\<lambda>f a. f), json_Valid = (\<lambda>s. s \<noteq> ''{bad'')\<rparr>
     [''SERVICE_NAME'' \<mapsto> ''svc'']
     \<lparr>Context = GinContext \<lparr>GetString = (\<lambda>k. ''r-1'')\<rparr>, Zap = 7\<rparr>
     ''order'' ''{"id":1}'' \<lparr>Key = ''meta'', Value = [(''a'', AnyInt 1)], Filter = [''a'']\<rparr> =
     [GinGetString ''request_id'', EnvRead ''SERVICE_NAME'', EnvRead ''GO_DEBUG'',
      ZapWrite 7 InfoLevel ''order {"id":1}''
        [zap_String ''x-request-id'' ''r-1'', zap_String ''service'' ''svc'',
         zap_Any ''meta'' (AnyMap [(''a'', AnyInt 1)])]]\<close>
  using InfoJSON_valid_appends_extras
          [of "[''SERVICE_NAME'' \<mapsto> ''svc'']"
              "\<lparr>fmt_Sprintf = (\<lambda>f a. f), json_Valid = (\<lambda>s. s \<noteq> ''{bad'')\<rparr>"
              \<open>''{"id":1}''\<close>
              "\<lparr>Key = ''meta'', Value = [(''a'', AnyInt 1)], Filter = [''a'']\<rparr>"
              "\<lparr>Context = GinContext \<lparr>GetString = (\<lambda>k. ''r-1'')\<rparr>, Zap = 7\<rparr>"
              "''order''"]
  by (simp add: logFromContext_GinContext stg_IsEmpty_def)

text \<open>
  C4. \<open>InfoJSON\<close> on the normal path with a fragment that \<open>json.Valid\<close> rejects: one
  record at Info level with the fields of \<open>logFromContext\<close> and the message alone.  The
  right-hand side mentions neither the fragment nor the extras, and the operation
  returns nothing to the caller.
\<close>

theorem InfoJSON_invalid_message_alone:
  assumes "env ''GO_DEBUG'' = None"
    and "\<not> json_Valid rt jbs"
  shows
    "InfoJSON rt env l msg jbs keys =
       snd (logFromContext env (Context l)) @
       [EnvRead ''GO_DEBUG'',
        ZapWrite (Zap l) InfoLevel msg (fst (logFromContext env (Context l)))]"
  using assms by (simp add: InfoJSON_emit)

theorem InfoJSON_invalid_message_alone_witness:
  "[''SERVICE_NAME'' \<mapsto> ''svc''] ''GO_DEBUG'' = None \<and>
   \<not> json_Valid \<lparr>fmt_Sprintf = (\<lambda>f a. f), json_Valid = (\<lambda>s. s \<noteq> ''{bad'')\<rparr> ''{bad'' \<and>
   InfoJSON \<lparr>fmt_Sprintf = (\<lambda>f a. f), json_Valid = (\<lambda>s. s \<noteq> ''{bad'')\<rparr>
     [''SERVICE_NAME'' \<mapsto> ''svc'']
     \<lparr>Context = GinContext \<lparr>GetString = (\<lambda>k. ''r-1'')\<rparr>, Zap = 7\<rparr>
     ''order'' ''{bad'' \<lparr>Key = ''meta'', Value = [(''a'', AnyInt 1)], Filter = []\<rparr> =
     [GinGetString ''request_id'', EnvRead ''SERVICE_NAME'', EnvRead ''GO_DEBUG'',
      ZapWrite 7 InfoLevel ''order''
        [zap_String ''x-request-id'' ''r-1'', zap_String ''service'' ''svc'']]"
  using InfoJSON_invalid_message_alone
          [of "[''SERVICE_NAME'' \<mapsto> ''svc'']"
              "\<lparr>fmt_Sprintf = (\<lambda>f a. f), json_Valid = (\<lambda>s. s \<noteq> ''{bad'')\<rparr>"
              "''{bad''"
              "\<lparr>Context = GinContext \<lparr>GetString = (\<lambda>k. ''r-1'')\<rparr>, Zap = 7\<rparr>"
              "''order''"
              "\<lparr>Key = ''meta'', Value = [(''a'', AnyInt 1)], Filter = []\<rparr>"]
  by (simp add: logFromContext_GinContext stg_IsEmpty_def)

text \<open>
  C5. On a gin context whose \<open>GetString("request_id")\<close> is non-empty the fields are
  that one \<open>x-request-id\<close> field followed by the service field, if \<open>SERVICE_NAME\<close> is
  set; when the looked-up string is empty there is no \<open>x-request-id\<close> field.  In both
  cases a \<open>service\<close> field is present exactly when \<open>SERVICE_NAME\<close> is set.
\<close>

theorem logFromContext_gin_request_id:
  "(GetString c ''request_id'' \<noteq> [] \<longrightarrow>
      fst (logFromContext env (GinContext c)) =
        zap_String ''x-request-id'' (GetString c ''request_id'') #
        (case env ''SERVICE_NAME'' of Some s \<Rightarrow> [zap_String ''service'' s] | None \<Rightarrow> []) \<and>
      length (filter (\<lambda>f. field_Key f = ''x-request-id'')
                (fst (logFromContext env (GinContext c)))) = 1) \<and>
   (GetString c ''request_id'' = [] \<longrightarrow>
      fst (logFromContext env (GinContext c)) =
        (case env ''SERVICE_NAME'' of Some s \<Rightarrow> [zap_String ''service'' s] | None \<Rightarrow> []) \<and>
      ''x-request-id'' \<notin> field_Key ` set (fst (logFromContext env (GinContext c)))) \<and>
   (''service'' \<in> field_Key ` set (fst (logFromContext env (GinContext c)))) =
     (env ''SERVICE_NAME'' \<noteq> None)"
  by (cases "env ''SERVICE_NAME''")
     (simp_all add: logFromContext_GinContext stg_IsEmpty_def)

theorem logFromContext_gin_request_id_witness:
  "GetString \<lparr>GetString = (\<lambda>k. if k = ''request_id'' then ''r-1'' else [])\<rparr> ''request_id'' \<noteq> [] \<and>
   fst (logFromContext [''SERVICE_NAME'' \<mapsto> ''svc'']
          (GinContext \<lparr>GetString = (\<lambda>k. if k = ''request_id'' then ''r-1'' else [])\<rparr>)) =
     [zap_String ''x-request-id'' ''r-1'', zap_String ''service'' ''svc''] \<and>
   GetString \<lparr>GetString = (\<lambda>k. [])\<rparr> ''request_id'' = [] \<and>
   fst (logFromContext Map.empty (GinContext \<lparr>GetString = (\<lambda>k. [])\<rparr>)) = []"
  using logFromContext_gin_request_id
          [of "\<lparr>GetString = (\<lambda>k. if k = ''request_id'' then ''r-1'' else [])\<rparr>"
              "[''SERVICE_NAME'' \<mapsto> ''svc'']"]
        logFromContext_gin_request_id [of "\<lparr>GetString = (\<lambda>k. [])\<rparr>" Map.empty]
  by simp


text \<open>
  C7. On a fasthttp context the extraction makes exactly the two calls of that block
  (the user-value read and the \<open>SERVICE_NAME\<close> lookup) and returns: no \<open>GetString\<close>
  call and no second lookup occur.  The identifier field is present exactly when the
  user value is a string; when the entry is absent (nil) or of another type only the
  service field, if any, is returned.
\<close>

theorem logFromContext_fasthttp_only_own_rule:
  "logFromContext env (FasthttpRequestCtx c) =
     ((case UserValue c ''request_id'' of
         AnyString uuid \<Rightarrow> [zap_String ''x-request-id'' uuid]
       | _ \<Rightarrow> []) @
      (case env ''SERVICE_NAME'' of Some s \<Rightarrow> [zap_String ''service'' s] | None \<Rightarrow> []),
      [FasthttpUserValue ''request_id'', EnvRead ''SERVICE_NAME''])"
  by (rule logFromContext_FasthttpRequestCtx)

theorem logFromContext_fasthttp_only_own_rule_witness:
  "logFromContext Map.empty (FasthttpRequestCtx \<lparr>UserValue = (\<lambda>k. AnyNil)\<rparr>) =
     ([], [FasthttpUserValue ''request_id'', EnvRead ''SERVICE_NAME''])"
  using logFromContext_fasthttp_only_own_rule
          [of Map.empty "\<lparr>UserValue = (\<lambda>k. AnyNil)\<rparr>"]
  by simp

text \<open>
  C8. On the normal path (\<open>GO_DEBUG\<close> unset) each severity operation hands the engine,
  at its own level, the caller's message itself when there are no arguments and
  \<open>fmt.Sprintf\<close> of message and arguments when there are some.
\<close>

theorem severity_message_verbatim_or_formatted:
  assumes "env ''GO_DEBUG'' = None"
  shows
    "Fatal rt env l msg args =
       EnvRead ''GO_DEBUG'' # snd (logFromContext env (Context l)) @
       [ZapWrite (Zap l) FatalLevel (if args = [] then msg else fmt_Sprintf rt msg args)
          (fst (logFromContext env (Context l)))] \<and>
     Error rt env l msg args =
       EnvRead ''GO_DEBUG'' # snd (logFromContext env (Context l)) @
       [ZapWrite (Zap l) ErrorLevel (if args = [] then msg else fmt_Sprintf rt msg args)
          (fst (logFromContext env (Context l)))] \<and>
     Warn rt env l msg args =
       EnvRead ''GO_DEBUG'' # snd (logFromContext env (Context l)) @
       [ZapWrite (Zap l) WarnLevel (if args = [] then msg else fmt_Sprintf rt msg args)
          (fst (logFromContext env (Context l)))] \<and>
     Info rt env l msg args =
       EnvRead ''GO_DEBUG'' # snd (logFromContext env (Context l)) @
       [ZapWrite (Zap l) InfoLevel (if args = [] then msg else fmt_Sprintf rt msg args)
          (fst (logFromContext env (Context l)))] \<and>
     Debug rt env l msg args =
       EnvRead ''GO_DEBUG'' # snd (logFromContext env (Context l)) @
       [ZapWrite (Zap l) DebugLevel (if args = [] then msg else fmt_Sprintf rt msg args)
          (fst (logFromContext env (Context l)))]"
  using assms
  by (simp only: Fatal_emit Error_emit Warn_emit Info_emit Debug_emit simp_thms)

theorem severity_message_verbatim_or_formatted_witness:
  "(Map.empty :: environ) ''GO_DEBUG'' = None \<and>
   Info \<lparr>fmt_Sprintf = (\<lambda>f a. ''formatted''), json_Valid = (\<lambda>s. True)\<rparr> Map.empty
     \<lparr>Context = NilContext, Zap = 7\<rparr> ''100%'' [] =
     [EnvRead ''GO_DEBUG'', ZapWrite 7 InfoLevel ''100%'' []] \<and>
   Warn \<lparr>fmt_Sprintf = (\<lambda>f a. ''formatted''), json_Valid = (\<lambda>s. True)\<rparr> Map.empty
     \<lparr>Context = NilContext, Zap = 7\<rparr> ''n=%d'' [AnyInt 3] =
     [EnvRead ''GO_DEBUG'', ZapWrite 7 WarnLevel ''formatted'' []]"
  using severity_message_verbatim_or_formatted
          [of Map.empty "\<lparr>fmt_Sprintf = (\<lambda>f a. ''formatted''), json_Valid = (\<lambda>s. True)\<rparr>"
              "\<lparr>Context = NilContext, Zap = 7\<rparr>" "''100%''" "[]"]
        severity_message_verbatim_or_formatted
          [of Map.empty "\<lparr>fmt_Sprintf = (\<lambda>f a. ''formatted''), json_Valid = (\<lambda>s. True)\<rparr>"
              "\<lparr>Context = NilContext, Zap = 7\<rparr>" "''n=%d''" "[AnyInt 3]"]
  by (simp add: logFromContext_NilContext)



text \<open>
  C10. The fasthttp block appends the identifier whenever the user value is a string,
  the empty string included; the gin block tests the looked-up string with
  \<open>stg.IsEmpty\<close> first and appends nothing for the empty string.
\<close>

theorem empty_request_id_fasthttp_vs_gin:
  "UserValue fc ''request_id'' = AnyString [] \<Longrightarrow> GetString gc ''request_id'' = [] \<Longrightarrow>
   fst (logFromContext env (FasthttpRequestCtx fc)) =
     zap_String ''x-request-id'' [] #
     (case env ''SERVICE_NAME'' of Some s \<Rightarrow> [zap_String ''service'' s] | None \<Rightarrow> []) \<and>
   fst (logFromContext env (GinContext gc)) =
     (case env ''SERVICE_NAME'' of Some s \<Rightarrow> [zap_String ''service'' s] | None \<Rightarrow> [])"
  by (simp add: logFromContext_FasthttpRequestCtx logFromContext_GinContext stg_IsEmpty_def)

theorem empty_request_id_fasthttp_vs_gin_witness:
  "UserValue \<lparr>UserValue = (\<lambda>k. AnyString [])\<rparr> ''request_id'' = AnyString [] \<and>
   GetString \<lparr>GetString = (\<lambda>k. [])\<rparr> ''request_id'' = [] \<and>
   fst (logFromContext Map.empty (FasthttpRequestCtx \<lparr>UserValue = (\<lambda>k. AnyString [])\<rparr>)) =
     [zap_String ''x-request-id'' []] \<and>
   fst (logFromContext Map.empty (GinContext \<lparr>GetString = (\<lambda>k. [])\<rparr>)) = []"
  using empty_request_id_fasthttp_vs_gin
          [of "\<lparr>UserValue = (\<lambda>k. AnyString [])\<rparr>" "\<lparr>GetString = (\<lambda>k. [])\<rparr>" Map.empty]
  by simp

end
